theory Spec2Isabelle
  imports Complex_Main "HOL-Library.Sublist"
begin

section \<open>Data model (types/index.ts)\<close>

text \<open>
  A JavaScript \<open>number\<close> is modelled as a rational, the value of a finite double.
  The engine's \<open>+\<close> and \<open>-\<close> round their result to a double; that rounding is a
  parameter of the platform (see \<open>fl\<close> below). \<open>NaN\<close> occurs in one place only
  (the total of a domain, see \<open>jsnum\<close>); the infinities are outside the model. The falsy
  number is therefore \<open>0\<close>. A JavaScript string is a \<open>string\<close>: a list of code
  units, each below 256. An object used as a dictionary is a map of the properties it has
  itself; where the code looks up a key that may be inherited, the lookup is written out
  (see \<open>property\<close>).
\<close>

type_synonym number = rat

record Session =
  startTime :: number
  endTime :: "number option"
  duration :: number
  tabId :: number
  windowId :: number

record ActiveSession =
  domain :: string
  startTime :: number
  tabId :: number
  windowId :: number
  isPaused :: "bool option"

text \<open>
  An object of the shape \<open>DomainData\<close>, as it is at run time: any of the four
  properties may be missing. That is what \<open>Partial<DomainData>\<close> allows, and it is
  what the code holds when a lookup has given it an inherited member of
  \<open>Object.prototype\<close>. A record with all four properties is a \<open>DomainData\<close> in
  the sense of the type declaration. The total is the one number that the code can turn
  into \<open>NaN\<close> from finite inputs (\<open>undefined + duration\<close>), so its type has
  that value.
\<close>

datatype jsnum = Finite number | NaN

record DomainData =
  totalTime :: "jsnum option"
  sessions :: "Session list option"
  dailyStats :: "(string \<rightharpoonup> number) option"
  lastAccessed :: "number option"

datatype PillPosition = TopLeft | TopRight | BottomLeft | BottomRight

record ExtensionSettings =
  pillPosition :: PillPosition
  pillVisibility :: bool
  dataRetentionDays :: number
  excludedDomains :: "string list"

record StorageSchema =
  domains :: "string \<rightharpoonup> DomainData"
  activeSession :: "ActiveSession option"
  settings :: ExtensionSettings
  version :: number
  installDate :: number

text \<open>
  \<open>Partial<StorageSchema>\<close>: every root key may be absent (\<open>None\<close>). The key
  \<open>activeSession\<close> may also be present with the value \<open>null\<close>
  (\<open>Some None\<close>). The same shape is what \<open>browser.storage.local\<close> holds.
\<close>

record PartialStorageSchema =
  domains_p :: "(string \<rightharpoonup> DomainData) option"
  activeSession_p :: "ActiveSession option option"
  settings_p :: "ExtensionSettings option"
  version_p :: "number option"
  installDate_p :: "number option"

datatype key = K_domains | K_activeSession | K_settings | K_version | K_installDate

text \<open>
  A thrown \<open>Error\<close> or \<open>TypeError\<close> object; \<open>toStr\<close> is what a template
  literal makes of it. The engine throws a \<open>TypeError\<close> for two faults that this
  code can commit; the wording of its message is the engine's.
\<close>

datatype error = Error string | TypeError string

fun toStr :: "error \<Rightarrow> string" where
  "toStr (Error m) = ''Error: '' @ m"
| "toStr (TypeError m) = ''TypeError: '' @ m"

datatype js_fault = ReadPropertyOfUndefined string | SpreadOfUndefined

section \<open>The environment: storage backend and clocks\<close>

text \<open>
  The world holds the contents of \<open>browser.storage.local\<close> and the three things the
  code cannot control: whether a backend call rejects (\<open>backend_fault\<close>, \<open>Some m\<close> is a
  rejection with message \<open>m\<close>), what \<open>performance.now()\<close> reads and what
  \<open>Date.now()\<close> reads. Each is a function of \<open>tick\<close>, which counts the backend calls
  and clock readings made so far, so that successive readings may differ. A rejected
  backend call leaves the contents as they were.

  The rest is the platform: \<open>utc_date t\<close> is the UTC year, month and day of
  \<open>new Date(t)\<close>; \<open>fl\<close> rounds a real number to the double that the engine's
  \<open>+\<close> and \<open>-\<close> deliver, so that \<open>a + b\<close> in the code is
  \<open>fl (a + b)\<close> here; \<open>engine_message\<close> is the message of the engine's
  \<open>TypeError\<close>.
\<close>

record world =
  store :: PartialStorageSchema
  tick :: nat
  backend_fault :: "nat \<Rightarrow> string option"
  perf_now :: "nat \<Rightarrow> number"
  date_now :: "nat \<Rightarrow> number"
  utc_date :: "number \<Rightarrow> int \<times> nat \<times> nat"
  fl :: "number \<Rightarrow> number"
  engine_message :: "js_fault \<Rightarrow> string"

type_synonym 'a result = "(error + 'a) \<times> world"

definition step :: "world \<Rightarrow> world" where
  "step w = w\<lparr>tick := Suc (tick w)\<rparr>"

definition performance_now :: "world \<Rightarrow> number \<times> world" where
  "performance_now w = (perf_now w (tick w), step w)"

definition Date_now :: "world \<Rightarrow> number \<times> world" where
  "Date_now w = (date_now w (tick w), step w)"

definition pick :: "key list \<Rightarrow> PartialStorageSchema \<Rightarrow> PartialStorageSchema" where
  "pick ks st =
     \<lparr>domains_p = (if K_domains \<in> set ks then domains_p st else None),
      activeSession_p = (if K_activeSession \<in> set ks then activeSession_p st else None),
      settings_p = (if K_settings \<in> set ks then settings_p st else None),
      version_p = (if K_version \<in> set ks then version_p st else None),
      installDate_p = (if K_installDate \<in> set ks then installDate_p st else None)\<rparr>"

definition assign :: "PartialStorageSchema \<Rightarrow> PartialStorageSchema \<Rightarrow> PartialStorageSchema" where
  "assign st items =
     \<lparr>domains_p = (case domains_p items of None \<Rightarrow> domains_p st | Some v \<Rightarrow> Some v),
      activeSession_p = (case activeSession_p items of None \<Rightarrow> activeSession_p st | Some v \<Rightarrow> Some v),
      settings_p = (case settings_p items of None \<Rightarrow> settings_p st | Some v \<Rightarrow> Some v),
      version_p = (case version_p items of None \<Rightarrow> version_p st | Some v \<Rightarrow> Some v),
      installDate_p = (case installDate_p items of None \<Rightarrow> installDate_p st | Some v \<Rightarrow> Some v)\<rparr>"

definition no_items :: PartialStorageSchema where
  "no_items = \<lparr>domains_p = None, activeSession_p = None, settings_p = None,
      version_p = None, installDate_p = None\<rparr>"

text \<open>\<open>storage.get(keyArray)\<close> and \<open>storage.set(items)\<close> of the backend.\<close>

definition storage_get :: "key list \<Rightarrow> world \<Rightarrow> PartialStorageSchema result" where
  "storage_get ks w =
     (case backend_fault w (tick w) of
        Some m \<Rightarrow> (Inl (Error m), step w)
      | None \<Rightarrow> (Inr (pick ks (store w)), step w))"

definition storage_set :: "PartialStorageSchema \<Rightarrow> world \<Rightarrow> unit result" where
  "storage_set items w =
     (case backend_fault w (tick w) of
        Some m \<Rightarrow> (Inl (Error m), step w)
      | None \<Rightarrow> (Inr (), step (w\<lparr>store := assign (store w) items\<rparr>)))"

section \<open>StorageManager (src/background/models/StorageManager.ts)\<close>

text \<open>\<open>get\<close> and \<open>set\<close>: the backend call, a failure re-thrown with a new message.\<close>

definition get_storage :: "key list \<Rightarrow> world \<Rightarrow> PartialStorageSchema result" where
  "get_storage ks w =
     (case storage_get ks w of
        (Inl e, w1) \<Rightarrow> (Inl (Error (''Failed to get storage data: '' @ toStr e)), w1)
      | (Inr r, w1) \<Rightarrow> (Inr r, w1))"

definition set_storage :: "PartialStorageSchema \<Rightarrow> world \<Rightarrow> unit result" where
  "set_storage items w =
     (case storage_set items w of
        (Inl e, w1) \<Rightarrow> (Inl (Error (''Failed to set storage data: '' @ toStr e)), w1)
      | (Inr u, w1) \<Rightarrow> (Inr (), w1))"

definition truthy :: "number \<Rightarrow> bool" where
  "truthy n \<longleftrightarrow> n \<noteq> 0"

definition createEmptyDomainData :: "world \<Rightarrow> DomainData \<times> world" where
  "createEmptyDomainData w =
     (let (t, w1) = Date_now w
      in (\<lparr>totalTime = Some (Finite 0), sessions = Some [], dailyStats = Some Map.empty,
           lastAccessed = Some t\<rparr>, w1))"

definition getDefaultSettings :: ExtensionSettings where
  "getDefaultSettings =
     \<lparr>pillPosition = TopRight, pillVisibility = True, dataRetentionDays = 30,
      excludedDomains = []\<rparr>"

text \<open>
  \<open>getAll\<close>: \<open>x || d\<close> takes the default \<open>d\<close> when \<open>x\<close> is absent or falsy;
  \<open>Date.now()\<close> is read only when the stored install date is.
\<close>

definition getAll :: "world \<Rightarrow> StorageSchema result" where
  "getAll w =
     (case get_storage [K_domains, K_activeSession, K_settings, K_version, K_installDate] w of
        (Inl e, w1) \<Rightarrow> (Inl (Error (''Failed to get all storage data: '' @ toStr e)), w1)
      | (Inr data, w1) \<Rightarrow>
          (let (inst, w2) =
                 (case installDate_p data of
                    Some t \<Rightarrow> if truthy t then (t, w1) else Date_now w1
                  | None \<Rightarrow> Date_now w1)
           in (Inr \<lparr>domains = (case domains_p data of Some d \<Rightarrow> d | None \<Rightarrow> Map.empty),
                    activeSession = (case activeSession_p data of Some (Some s) \<Rightarrow> Some s | _ \<Rightarrow> None),
                    settings = (case settings_p data of Some s \<Rightarrow> s | None \<Rightarrow> getDefaultSettings),
                    version = (case version_p data of Some v \<Rightarrow> if truthy v then v else 1 | None \<Rightarrow> 1),
                    installDate = inst\<rparr>, w2)))"

text \<open>\<open>Object.keys(updates)\<close> of a partial schema.\<close>

definition keys_of :: "PartialStorageSchema \<Rightarrow> key list" where
  "keys_of u =
     (if domains_p u = None then [] else [K_domains]) @
     (if activeSession_p u = None then [] else [K_activeSession]) @
     (if settings_p u = None then [] else [K_settings]) @
     (if version_p u = None then [] else [K_version]) @
     (if installDate_p u = None then [] else [K_installDate])"

definition initialize :: "world \<Rightarrow> unit result" where
  "initialize w =
     (case get_storage [K_version, K_installDate, K_settings] w of
        (Inl e, w1) \<Rightarrow> (Inl (Error (''Failed to initialize storage: '' @ toStr e)), w1)
      | (Inr existing, w1) \<Rightarrow>
          (let u1 = (if (case version_p existing of Some v \<Rightarrow> truthy v | None \<Rightarrow> False)
                     then no_items else no_items\<lparr>version_p := Some 1\<rparr>);
               (u2, w2) =
                 (if (case installDate_p existing of Some t \<Rightarrow> truthy t | None \<Rightarrow> False)
                  then (u1, w1)
                  else (let (t, w') = Date_now w1 in (u1\<lparr>installDate_p := Some t\<rparr>, w')));
               u3 = (if settings_p existing = None
                     then u2\<lparr>settings_p := Some getDefaultSettings\<rparr> else u2)
           in if length (keys_of u3) > 0
              then (case set_storage u3 w2 of
                      (Inl e, w3) \<Rightarrow> (Inl (Error (''Failed to initialize storage: '' @ toStr e)), w3)
                    | (Inr u, w3) \<Rightarrow> (Inr (), w3))
              else (Inr (), w2)))"

text \<open>
  \<open>obj[key]\<close> on the stored domains object, a plain object. A key that the object
  does not have itself is looked up in \<open>Object.prototype\<close>: for one of the names
  below the result is the inherited member (the function \<open>Object\<close>, a method, or for
  \<open>__proto__\<close> the prototype itself). All of them are truthy, have none of the four
  properties of a \<open>DomainData\<close>, and have no enumerable property of their own, so in
  every use this code makes of them they are the record without properties.
\<close>

definition Object_prototype_keys :: "string list" where
  "Object_prototype_keys =
     [''constructor'', ''__defineGetter__'', ''__defineSetter__'', ''hasOwnProperty'',
      ''__lookupGetter__'', ''__lookupSetter__'', ''isPrototypeOf'', ''propertyIsEnumerable'',
      ''toString'', ''valueOf'', ''__proto__'', ''toLocaleString'']"

definition inherited_member :: DomainData where
  "inherited_member =
     \<lparr>totalTime = None, sessions = None, dailyStats = None, lastAccessed = None\<rparr>"

definition property :: "(string \<rightharpoonup> DomainData) \<Rightarrow> string \<Rightarrow> DomainData option" where
  "property obj k =
     (case obj k of
        Some v \<Rightarrow> Some v
      | None \<Rightarrow> if k \<in> set Object_prototype_keys then Some inherited_member else None)"

text \<open>
  \<open>getDomainData\<close> absorbs a failed read and answers with an empty record. With no
  stored domains object, \<open>domains?.[domain]\<close> is \<open>undefined\<close> whatever the key.
\<close>

definition getDomainData :: "string \<Rightarrow> world \<Rightarrow> DomainData \<times> world" where
  "getDomainData d w =
     (case get_storage [K_domains] w of
        (Inl e, w1) \<Rightarrow> createEmptyDomainData w1
      | (Inr r, w1) \<Rightarrow>
          (case domains_p r of
             None \<Rightarrow> createEmptyDomainData w1
           | Some ds \<Rightarrow>
               (case property ds d of
                  None \<Rightarrow> createEmptyDomainData w1
                | Some dd \<Rightarrow> (dd, w1))))"

text \<open>\<open>{...currentDomainData, ...updates}\<close>: a property of \<open>updates\<close> wins.\<close>

definition spread :: "DomainData \<Rightarrow> DomainData \<Rightarrow> DomainData" where
  "spread cur u =
     \<lparr>totalTime = (case totalTime u of Some v \<Rightarrow> Some v | None \<Rightarrow> totalTime cur),
      sessions = (case sessions u of Some v \<Rightarrow> Some v | None \<Rightarrow> sessions cur),
      dailyStats = (case dailyStats u of Some v \<Rightarrow> Some v | None \<Rightarrow> dailyStats cur),
      lastAccessed = (case lastAccessed u of Some v \<Rightarrow> Some v | None \<Rightarrow> lastAccessed cur)\<rparr>"

text \<open>
  \<open>updateDomainData\<close>. Here \<open>currentDomains\<close> is always an object
  (\<open>domains || {}\<close>), so an inherited name that is not stored finds the inherited
  member, and \<open>createEmptyDomainData\<close> is not called.
\<close>

definition updateDomainData :: "string \<Rightarrow> DomainData \<Rightarrow> world \<Rightarrow> unit result" where
  "updateDomainData d updates w =
     (case get_storage [K_domains] w of
        (Inl e, w1) \<Rightarrow>
          (Inl (Error (''Failed to update domain data for '' @ d @ '': '' @ toStr e)), w1)
      | (Inr r, w1) \<Rightarrow>
          (let currentDomains = (case domains_p r of Some ds \<Rightarrow> ds | None \<Rightarrow> Map.empty);
               (currentDomainData, w2) =
                 (case property currentDomains d of
                    Some dd \<Rightarrow> (dd, w1)
                  | None \<Rightarrow> createEmptyDomainData w1);
               (t, w3) = Date_now w2;
               updatedDomainData = (spread currentDomainData updates)\<lparr>lastAccessed := Some t\<rparr>
           in (case set_storage
                      (no_items\<lparr>domains_p := Some (currentDomains(d \<mapsto> updatedDomainData))\<rparr>) w3 of
                 (Inl e, w4) \<Rightarrow>
                   (Inl (Error (''Failed to update domain data for '' @ d @ '': '' @ toStr e)), w4)
               | (Inr u, w4) \<Rightarrow> (Inr (), w4))))"

text \<open>\<open>getActiveSession\<close> absorbs a failed read and answers \<open>null\<close>.\<close>

definition getActiveSession :: "world \<Rightarrow> ActiveSession option \<times> world" where
  "getActiveSession w =
     (case get_storage [K_activeSession] w of
        (Inl e, w1) \<Rightarrow> (None, w1)
      | (Inr r, w1) \<Rightarrow>
          ((case activeSession_p r of Some (Some s) \<Rightarrow> Some s | _ \<Rightarrow> None), w1))"

definition setActiveSession :: "ActiveSession option \<Rightarrow> world \<Rightarrow> unit result" where
  "setActiveSession session w =
     (case set_storage (no_items\<lparr>activeSession_p := Some session\<rparr>) w of
        (Inl e, w1) \<Rightarrow> (Inl (Error (''Failed to set active session: '' @ toStr e)), w1)
      | (Inr u, w1) \<Rightarrow> (Inr (), w1))"

section \<open>TimeTracker (src/background/services/TimeTracker.ts)\<close>

subsection \<open>String helpers of the platform\<close>

text \<open>
  \<open>s.split(sep)\<close> for a separator that is not empty (for the empty separator the
  model answers the whole string, which the code never asks for), \<open>s.startsWith(p)\<close> is
  \<open>prefix p s\<close>, and \<open>s.trim()\<close> removes white space and line terminators from
  both ends: among the code units below 256 these are tab, line feed, vertical tab, form
  feed, carriage return, space and no-break space.
\<close>

function split_go :: "string \<Rightarrow> string \<Rightarrow> string \<Rightarrow> string list" where
  "split_go sep acc [] = [rev acc]"
| "split_go sep acc (c # cs) =
     (if sep \<noteq> [] \<and> prefix sep (c # cs)
      then rev acc # split_go sep [] (drop (length sep) (c # cs))
      else split_go sep (c # acc) cs)"
  by pat_completeness auto
termination
  by (relation "measure (\<lambda>(sep, acc, s). length s)") auto

definition split :: "string \<Rightarrow> string \<Rightarrow> string list" where
  "split sep s = split_go sep [] s"

definition isWhiteSpace :: "char \<Rightarrow> bool" where
  "isWhiteSpace c \<longleftrightarrow>
     c \<in> {CHR 0x09, CHR 0x0A, CHR 0x0B, CHR 0x0C, CHR 0x0D, CHR 0x20, CHR 0xA0}"

definition trim :: "string \<Rightarrow> string" where
  "trim s = rev (dropWhile isWhiteSpace (rev (dropWhile isWhiteSpace s)))"

text \<open>
  \<open>new Date(t).toISOString().split('T')[0]\<close>, from the UTC year, month and day:
  four digits for the years 0 to 9999, a sign and six digits for the others.
\<close>

definition digit :: "nat \<Rightarrow> char" where
  "digit n = ''0123456789'' ! (n mod 10)"

fun pad :: "nat \<Rightarrow> nat \<Rightarrow> string" where
  "pad 0 k = []"
| "pad (Suc n) k = pad n (k div 10) @ [digit k]"

definition toISODate :: "int \<times> nat \<times> nat \<Rightarrow> string" where
  "toISODate ymd =
     (case ymd of (y, m, d) \<Rightarrow>
        (if 0 \<le> y \<and> y \<le> 9999 then pad 4 (nat y)
         else (if y < 0 then ''-'' else ''+'') @ pad 6 (nat \<bar>y\<bar>)) @
        ''-'' @ pad 2 m @ ''-'' @ pad 2 d)"

text \<open>\<open>Number.isInteger\<close> on a finite number.\<close>

definition isInteger :: "number \<Rightarrow> bool" where
  "isInteger q \<longleftrightarrow> of_int \<lfloor>q\<rfloor> = q"

subsection \<open>Pure helpers\<close>

text \<open>
  \<open>extractDomain\<close>. The platform's URL parser is a parameter: \<open>hostname url\<close> is
  \<open>None\<close> when \<open>new URL(url)\<close> throws and the parsed \<open>hostname\<close> otherwise.
\<close>

definition extractDomain :: "(string \<Rightarrow> string option) \<Rightarrow> string \<Rightarrow> string" where
  "extractDomain hostname url =
     (if url = [] then ''unknown''
      else if prefix ''chrome://'' url \<or> prefix ''moz-extension://'' url \<or> prefix ''about:'' url
      then (let parts = split ''://'' url
            in if length parts > 1 then hd parts else ''unknown'')
      else (case hostname url of
              None \<Rightarrow> ''unknown''
            | Some h \<Rightarrow> if h = [] then ''unknown'' else h))"

definition calculateDuration :: "number \<Rightarrow> number option \<Rightarrow> world \<Rightarrow> number \<times> world" where
  "calculateDuration start endT w =
     (let (e, w1) = (case endT of Some e \<Rightarrow> (e, w) | None \<Rightarrow> performance_now w)
      in (max 0 (fl w (e - start)), w1))"

definition getSessionDuration :: "ActiveSession \<Rightarrow> world \<Rightarrow> number \<times> world" where
  "getSessionDuration session w = calculateDuration (startTime session) None w"

subsection \<open>Session lifecycle\<close>

text \<open>\<open>catch (error) { throw new Error(`<prefix>${error}`) }\<close> around a body.\<close>

definition rethrow :: "string \<Rightarrow> 'a result \<Rightarrow> 'a result" where
  "rethrow pre r =
     (case r of
        (Inl e, w) \<Rightarrow> (Inl (Error (pre @ toStr e)), w)
      | (Inr v, w) \<Rightarrow> (Inr v, w))"

definition startSession :: "string \<Rightarrow> number \<Rightarrow> number \<Rightarrow> world \<Rightarrow> ActiveSession result" where
  "startSession d t wi w =
     rethrow ''Failed to start session: ''
       (if d = [] \<or> trim d = [] then (Inl (Error ''Domain cannot be empty''), w)
        else if \<not> isInteger t \<or> t < 0 then (Inl (Error ''TabId must be a positive number''), w)
        else if \<not> isInteger wi \<or> wi < 0
        then (Inl (Error ''WindowId must be a positive number''), w)
        else (case getActiveSession w of
                (Some existingSession, w1) \<Rightarrow>
                  (Inl (Error ''Cannot start session: another session is already active''), w1)
              | (None, w1) \<Rightarrow>
                  (let (now, w2) = performance_now w1;
                       session = \<lparr>domain = trim d, startTime = now, tabId = t, windowId = wi,
                                  isPaused = Some False\<rparr>
                   in (case setActiveSession (Some session) w2 of
                         (Inl e, w3) \<Rightarrow> (Inl e, w3)
                       | (Inr u, w3) \<Rightarrow> (Inr session, w3)))))"

text \<open>
  The private \<open>TimeTracker.updateDomainData\<close>: the fold of a completed session.
  \<open>domainData.dailyStats[sessionDate]\<close> throws when \<open>domainData\<close> has no
  \<open>dailyStats\<close>, and \<open>[...domainData.sessions, session]\<close> throws when it has no
  \<open>sessions\<close>; both happen after the first reading of \<open>Date.now()\<close> and before
  the second. The key \<open>sessionDate\<close> begins with a digit or a sign, so the lookup in
  \<open>dailyStats\<close> never finds an inherited member.
\<close>

definition TimeTracker_updateDomainData :: "string \<Rightarrow> Session \<Rightarrow> world \<Rightarrow> unit result" where
  "TimeTracker_updateDomainData d session w =
     (let (domainData, w1) = getDomainData d w;
          (t1, w2) = Date_now w1;
          sessionDate = toISODate (utc_date w t1)
      in (case dailyStats domainData of
            None \<Rightarrow> (Inl (TypeError (engine_message w (ReadPropertyOfUndefined sessionDate))), w2)
          | Some stats \<Rightarrow>
              (let existingDailyTime =
                     (case stats sessionDate of
                        Some v \<Rightarrow> if truthy v then v else 0
                      | None \<Rightarrow> 0);
                   total =
                     (case totalTime domainData of
                        Some (Finite x) \<Rightarrow> Finite (fl w (x + duration session))
                      | _ \<Rightarrow> NaN)
               in (case sessions domainData of
                     None \<Rightarrow> (Inl (TypeError (engine_message w SpreadOfUndefined)), w2)
                   | Some ss \<Rightarrow>
                       (let (t2, w3) = Date_now w2;
                            updatedData =
                              \<lparr>totalTime = Some total,
                               sessions = Some (ss @ [session]),
                               dailyStats =
                                 Some (stats(sessionDate \<mapsto>
                                         fl w (existingDailyTime + duration session))),
                               lastAccessed = Some t2\<rparr>
                        in updateDomainData d updatedData w3)))))"

definition stopSession :: "world \<Rightarrow> Session option result" where
  "stopSession w =
     rethrow ''Failed to stop session: ''
       (case getActiveSession w of
          (None, w1) \<Rightarrow> (Inr None, w1)
        | (Some a, w1) \<Rightarrow>
            (let (endT, w2) = performance_now w1;
                 (dur, w3) = calculateDuration (startTime a) (Some endT) w2;
                 completedSession =
                   \<lparr>Session.startTime = startTime a, endTime = Some endT, duration = dur,
                    Session.tabId = tabId a, Session.windowId = windowId a\<rparr>
             in (case TimeTracker_updateDomainData (domain a) completedSession w3 of
                   (Inl e, w4) \<Rightarrow> (Inl e, w4)
                 | (Inr u, w4) \<Rightarrow>
                     (case setActiveSession None w4 of
                        (Inl e, w5) \<Rightarrow> (Inl e, w5)
                      | (Inr u', w5) \<Rightarrow> (Inr (Some completedSession), w5)))))"

definition pauseSession :: "world \<Rightarrow> ActiveSession option result" where
  "pauseSession w =
     rethrow ''Failed to pause session: ''
       (case getActiveSession w of
          (None, w1) \<Rightarrow> (Inr None, w1)
        | (Some a, w1) \<Rightarrow>
            (let pausedSession = a\<lparr>isPaused := Some True\<rparr>
             in (case setActiveSession (Some pausedSession) w1 of
                   (Inl e, w2) \<Rightarrow> (Inl e, w2)
                 | (Inr u, w2) \<Rightarrow> (Inr (Some pausedSession), w2))))"

definition resumeSession :: "world \<Rightarrow> ActiveSession option result" where
  "resumeSession w =
     rethrow ''Failed to resume session: ''
       (case getActiveSession w of
          (None, w1) \<Rightarrow> (Inr None, w1)
        | (Some a, w1) \<Rightarrow>
            (let resumedSession = a\<lparr>isPaused := Some False\<rparr>
             in (case setActiveSession (Some resumedSession) w1 of
                   (Inl e, w2) \<Rightarrow> (Inl e, w2)
                 | (Inr u, w2) \<Rightarrow> (Inr (Some resumedSession), w2))))"

subsection \<open>Sequences of lifecycle calls\<close>

datatype call = Start string number number | Stop | Pause | Resume

fun exec :: "call \<Rightarrow> world \<Rightarrow> world" where
  "exec (Start d t wi) w = snd (startSession d t wi w)"
| "exec Stop w = snd (stopSession w)"
| "exec Pause w = snd (pauseSession w)"
| "exec Resume w = snd (resumeSession w)"

fun run :: "call list \<Rightarrow> world \<Rightarrow> world" where
  "run [] w = w"
| "run (c # cs) w = run cs (exec c w)"

text \<open>The active sessions that the storage holds.\<close>

definition persisted :: "world \<Rightarrow> ActiveSession list" where
  "persisted w = (case activeSession_p (store w) of Some (Some s) \<Rightarrow> [s] | _ \<Rightarrow> [])"

section \<open>What the storage says about a domain\<close>

text \<open>
  The stored record of a domain, and its total, its session list and one of its daily
  buckets, where a domain or a bucket that is not stored counts as empty. A stored record
  is complete when it has the four properties and its total is a number.
\<close>

definition stored_domain :: "world \<Rightarrow> string \<Rightarrow> DomainData option" where
  "stored_domain w d = (case domains_p (store w) of Some ds \<Rightarrow> ds d | None \<Rightarrow> None)"

definition totalTime_of :: "world \<Rightarrow> string \<Rightarrow> number" where
  "totalTime_of w d =
     (case stored_domain w d of
        Some dd \<Rightarrow> (case totalTime dd of Some (Finite x) \<Rightarrow> x | _ \<Rightarrow> 0)
      | None \<Rightarrow> 0)"

definition sessions_of :: "world \<Rightarrow> string \<Rightarrow> Session list" where
  "sessions_of w d =
     (case stored_domain w d of
        Some dd \<Rightarrow> (case sessions dd of Some ss \<Rightarrow> ss | None \<Rightarrow> [])
      | None \<Rightarrow> [])"

definition bucket_of :: "world \<Rightarrow> string \<Rightarrow> string \<Rightarrow> number" where
  "bucket_of w d k =
     (case stored_domain w d of
        Some dd \<Rightarrow>
          (case dailyStats dd of
             Some stats \<Rightarrow> (case stats k of Some v \<Rightarrow> v | None \<Rightarrow> 0)
           | None \<Rightarrow> 0)
      | None \<Rightarrow> 0)"

definition complete :: "DomainData \<Rightarrow> bool" where
  "complete dd \<longleftrightarrow>
     (case totalTime dd of Some (Finite x) \<Rightarrow> True | _ \<Rightarrow> False) \<and>
     sessions dd \<noteq> None \<and> dailyStats dd \<noteq> None \<and> lastAccessed dd \<noteq> None"

text \<open>
  The fold of a session into domain \<open>d\<close> is sound in a world when the record it will
  read is complete: no domains object is stored, or \<open>d\<close> is stored with a complete
  record, or \<open>d\<close> is not stored and is no inherited name.
\<close>

definition sound_for :: "world \<Rightarrow> string \<Rightarrow> bool" where
  "sound_for w d =
     (case domains_p (store w) of
        None \<Rightarrow> True
      | Some ds \<Rightarrow>
          (case ds d of
             Some dd \<Rightarrow> complete dd
           | None \<Rightarrow> d \<notin> set Object_prototype_keys))"

section \<open>Concrete worlds\<close>

text \<open>
  An empty storage whose backend never rejects; \<open>performance.now()\<close> advances by half a
  second with every tick, the date is 1 January 2022, and the numbers that occur are
  small integers, which the engine's arithmetic does not round.
\<close>

definition world_idle :: world where
  "world_idle =
     \<lparr>store = no_items, tick = 0, backend_fault = (\<lambda>n. None),
      perf_now = (\<lambda>n. 1000 + 500 * of_nat n),
      date_now = (\<lambda>n. 1640995200000 + of_nat n),
      utc_date = (\<lambda>t. (2022, 1, 1)),
      fl = (\<lambda>x. x),
      engine_message =
        (\<lambda>f. case f of
               ReadPropertyOfUndefined k \<Rightarrow>
                 ''Cannot read properties of undefined (reading '' @ k @ '')''
             | SpreadOfUndefined \<Rightarrow> ''undefined is not iterable'')\<rparr>"

text \<open>A session is being tracked; the backend never rejects.\<close>

definition session_example :: ActiveSession where
  "session_example =
     \<lparr>domain = ''example.com'', startTime = 1000, tabId = 1, windowId = 1,
      isPaused = Some False\<rparr>"

definition world_active :: world where
  "world_active =
     world_idle\<lparr>store := no_items\<lparr>activeSession_p := Some (Some session_example)\<rparr>\<rparr>"

text \<open>The same, but the first backend call rejects.\<close>

definition world_active_read_fails :: world where
  "world_active_read_fails =
     world_active\<lparr>backend_fault := (\<lambda>n. if n = 0 then Some ''Storage error'' else None)\<rparr>"

text \<open>A storage that holds a version only, as an interrupted bootstrap may leave it.\<close>

definition world_partial :: world where
  "world_partial = world_idle\<lparr>store := no_items\<lparr>version_p := Some 3\<rparr>\<rparr>"

text \<open>
  A domain with history and a running session; and the running session alone, with a
  backend that rejects its tenth call (the write of the domains map during a stop).
\<close>

definition example_data :: DomainData where
  "example_data =
     \<lparr>totalTime = Some (Finite 5000), sessions = Some [],
      dailyStats = Some [''2022-01-01'' \<mapsto> 2000], lastAccessed = Some 1640995199000\<rparr>"

definition world_tracked :: world where
  "world_tracked =
     world_idle\<lparr>store := no_items
       \<lparr>domains_p := Some [''example.com'' \<mapsto> example_data],
        activeSession_p := Some (Some session_example)\<rparr>\<rparr>"

text \<open>
  The site \<open>http://constructor/\<close> is being tracked, and the storage holds a domains
  object that has no record for it.
\<close>

definition session_constructor :: ActiveSession where
  "session_constructor =
     \<lparr>domain = ''constructor'', startTime = 1000, tabId = 1, windowId = 1,
      isPaused = Some False\<rparr>"

definition world_constructor :: world where
  "world_constructor =
     world_idle\<lparr>store := no_items
       \<lparr>domains_p := Some [''example.com'' \<mapsto> example_data],
        activeSession_p := Some (Some session_constructor)\<rparr>\<rparr>"

definition world_active_fold_fails :: world where
  "world_active_fold_fails =
     world_active\<lparr>backend_fault := (\<lambda>n. if n = 9 then Some ''Quota exceeded'' else None)\<rparr>"

section \<open>Basic facts about the storage layer\<close>

lemma step_simps [simp]:
  "store (step w) = store w" "tick (step w) = Suc (tick w)"
  "backend_fault (step w) = backend_fault w" "perf_now (step w) = perf_now w"
  "date_now (step w) = date_now w" "utc_date (step w) = utc_date w"
  "fl (step w) = fl w" "engine_message (step w) = engine_message w"
  by (simp_all add: step_def)

lemma get_storage_ok:
  "backend_fault w (tick w) = None \<Longrightarrow> get_storage ks w = (Inr (pick ks (store w)), step w)"
  by (simp add: get_storage_def storage_get_def)

lemma get_storage_fail:
  "backend_fault w (tick w) = Some m \<Longrightarrow>
   get_storage ks w = (Inl (Error (''Failed to get storage data: Error: '' @ m)), step w)"
  by (simp add: get_storage_def storage_get_def)

lemma set_storage_ok:
  "backend_fault w (tick w) = None \<Longrightarrow>
   set_storage items w = (Inr (), step (w\<lparr>store := assign (store w) items\<rparr>))"
  by (simp add: set_storage_def storage_set_def)

lemma set_storage_fail:
  "backend_fault w (tick w) = Some m \<Longrightarrow>
   set_storage items w = (Inl (Error (''Failed to set storage data: Error: '' @ m)), step w)"
  by (simp add: set_storage_def storage_set_def)

lemma getActiveSession_ok:
  "backend_fault w (tick w) = None \<Longrightarrow>
   getActiveSession w =
     ((case activeSession_p (store w) of Some (Some s) \<Rightarrow> Some s | _ \<Rightarrow> None), step w)"
  by (simp add: getActiveSession_def get_storage_ok pick_def)

lemma getActiveSession_fail:
  "backend_fault w (tick w) = Some m \<Longrightarrow> getActiveSession w = (None, step w)"
  by (simp add: getActiveSession_def get_storage_fail)

lemma setActiveSession_ok:
  "backend_fault w (tick w) = None \<Longrightarrow>
   setActiveSession x w = (Inr (), step (w\<lparr>store := (store w)\<lparr>activeSession_p := Some x\<rparr>\<rparr>))"
  by (simp add: setActiveSession_def set_storage_ok assign_def no_items_def)

lemma setActiveSession_fail:
  "backend_fault w (tick w) = Some m \<Longrightarrow>
   setActiveSession x w =
     (Inl (Error (''Failed to set active session: Error: Failed to set storage data: Error: '' @ m)),
      step w)"
  by (simp add: setActiveSession_def set_storage_fail)

section \<open>The pure helpers\<close>

text \<open>
  Claim C8: \<open>getSessionDuration\<close> does not look at the pause flag. Two active sessions
  that differ in \<open>isPaused\<close> only, asked at the same clock reading, get the same
  answer: the milliseconds elapsed since \<open>startTime\<close> (the clock reading minus
  \<open>startTime\<close>, as the engine subtracts), never less than zero.
\<close>

theorem getSessionDuration_ignores_isPaused:
  "getSessionDuration (s\<lparr>isPaused := p\<rparr>) w = getSessionDuration (s\<lparr>isPaused := q\<rparr>) w \<and>
   fst (getSessionDuration (s\<lparr>isPaused := p\<rparr>) w) =
     max 0 (fl w (perf_now w (tick w) - startTime s))"
  by (simp add: getSessionDuration_def calculateDuration_def performance_now_def)

lemma split_go_nonempty: "split_go sep acc s \<noteq> []"
  by (induction sep acc s rule: split_go.induct) auto

text \<open>
  For the two prefixes that contain \<open>://\<close> the special branch of \<open>extractDomain\<close>
  answers with the scheme.
\<close>

lemma extractDomain_chrome:
  "prefix ''chrome://'' url \<Longrightarrow> extractDomain hostname url = ''chrome''"
  using split_go_nonempty [of "''://''" "[]"]
  by (auto simp: extractDomain_def split_def prefix_def Let_def neq_Nil_conv)

lemma extractDomain_moz_extension:
  "prefix ''moz-extension://'' url \<Longrightarrow> extractDomain hostname url = ''moz-extension''"
  using split_go_nonempty [of "''://''" "[]"]
  by (auto simp: extractDomain_def split_def prefix_def Let_def neq_Nil_conv)

text \<open>
  Claim C6: a pseudo-URL that begins with \<open>chrome://\<close>, \<open>moz-extension://\<close> or
  \<open>about:\<close> is answered with its scheme, not with \<open>unknown\<close>. The code enters the
  special branch for \<open>about:blank\<close>, but splits at \<open>://\<close>, which that URL does not
  contain, and so answers \<open>unknown\<close>, whatever the URL parser would say.
\<close>

theorem extractDomain_about_blank:
  "extractDomain hostname ''about:blank'' = ''unknown''"
  by (simp add: extractDomain_def split_def)

section \<open>Starting a session\<close>

text \<open>
  Claim C4: a call of \<open>startSession\<close> whose domain is blank after trimming, or
  whose tab id or window id is not a non-negative integer, fails at once with the
  validation error of the first check that fails (for a blank domain
  \<open>Domain cannot be empty\<close>, carried inside the message of the error that the
  \<open>catch\<close> block throws), and the world is returned as it was: no backend call was
  made and no clock was read.
\<close>

theorem startSession_validation:
  assumes "trim d = [] \<or> \<not> (isInteger t \<and> 0 \<le> t) \<or> \<not> (isInteger wi \<and> 0 \<le> wi)"
  shows "\<exists>m. m \<in> {''Domain cannot be empty'', ''TabId must be a positive number'',
                  ''WindowId must be a positive number''} \<and>
             startSession d t wi w = (Inl (Error (''Failed to start session: Error: '' @ m)), w) \<and>
             (trim d = [] \<longrightarrow> m = ''Domain cannot be empty'')"
proof (cases "d = [] \<or> trim d = []")
  case True
  then have "startSession d t wi w =
      (Inl (Error (''Failed to start session: Error: '' @ ''Domain cannot be empty'')), w)"
    by (simp add: startSession_def rethrow_def)
  then show ?thesis by blast
next
  case blank: False
  then have nb: "trim d \<noteq> []" by simp
  show ?thesis
  proof (cases "\<not> isInteger t \<or> t < 0")
    case True
    with blank have "startSession d t wi w =
        (Inl (Error (''Failed to start session: Error: '' @ ''TabId must be a positive number'')), w)"
      by (simp add: startSession_def rethrow_def)
    with nb show ?thesis by blast
  next
    case tab: False
    with assms nb have "\<not> isInteger wi \<or> wi < 0" by auto
    with blank tab have "startSession d t wi w =
        (Inl (Error (''Failed to start session: Error: '' @ ''WindowId must be a positive number'')), w)"
      by (simp add: startSession_def rethrow_def)
    with nb show ?thesis by blast
  qed
qed

theorem startSession_validation_witness:
  "trim ''   '' = [] \<and>
   startSession ''   '' 123 1 world_idle =
     (Inl (Error ''Failed to start session: Error: Domain cannot be empty''), world_idle)"
proof -
  have blank: "trim ''   '' = []"
    by (simp add: trim_def isWhiteSpace_def)
  from startSession_validation [of "''   ''" 123 1 world_idle] blank
  show ?thesis by auto
qed

lemma startSession_success:
  assumes "startSession d t wi w = (Inr s, w')"
  shows "persisted w' = [s] \<and> isPaused s = Some False \<and> fst (getActiveSession w) = None"
proof -
  obtain r w1 where g: "getActiveSession w = (r, w1)"
    by (cases "getActiveSession w")
  obtain t0 w2 where p: "performance_now w1 = (t0, w2)"
    by (cases "performance_now w1")
  let ?s = "\<lparr>domain = trim d, startTime = t0, tabId = t, windowId = wi, isPaused = Some False\<rparr>"
  from assms g p have written: "setActiveSession (Some ?s) w2 = (Inr (), w')" and s: "s = ?s"
    and r: "r = None"
    by (auto simp: startSession_def rethrow_def Let_def
          split: if_splits option.splits sum.splits prod.splits)
  from written have "activeSession_p (store w') = Some (Some ?s)"
    by (cases "backend_fault w2 (tick w2)") (auto simp: setActiveSession_ok setActiveSession_fail)
  with s r g show ?thesis by (simp add: persisted_def)
qed

text \<open>
  Claim C1: after any sequence of \<open>startSession\<close>, \<open>stopSession\<close>,
  \<open>pauseSession\<close> and \<open>resumeSession\<close> calls, run one after the other from any
  world, the storage holds at most one active session; and a \<open>startSession\<close> that
  succeeds there leaves exactly the session it returns in the storage, with
  \<open>isPaused = false\<close>, and it had read the slot as empty.
\<close>

theorem single_active_session:
  "length (persisted (run cs w)) \<le> 1 \<and>
   (startSession d t wi (run cs w) = (Inr s, w') \<longrightarrow>
      persisted w' = [s] \<and> isPaused s = Some False \<and>
      fst (getActiveSession (run cs w)) = None)"
  using startSession_success [of d t wi "run cs w" s w']
  by (simp add: persisted_def split: option.splits)

lemma start_after_three_calls:
  "fst (startSession ''blog.example.com'' 7 1
          (run [Start ''example.com'' 123 1, Pause, Stop] world_idle)) =
     Inr \<lparr>domain = ''blog.example.com'', startTime = 9500, tabId = 7, windowId = 1,
           isPaused = Some False\<rparr>"
  by code_simp

theorem single_active_session_witness:
  "length (persisted (run [Start ''example.com'' 123 1, Pause, Stop] world_idle)) \<le> 1 \<and>
   persisted (snd (startSession ''blog.example.com'' 7 1
                (run [Start ''example.com'' 123 1, Pause, Stop] world_idle))) =
     [\<lparr>domain = ''blog.example.com'', startTime = 9500, tabId = 7, windowId = 1,
       isPaused = Some False\<rparr>]"
proof -
  let ?w = "run [Start ''example.com'' 123 1, Pause, Stop] world_idle"
  let ?s = "\<lparr>domain = ''blog.example.com'', startTime = 9500, tabId = 7, windowId = 1,
             isPaused = Some False\<rparr>"
  have ok: "startSession ''blog.example.com'' 7 1 ?w =
          (Inr ?s, snd (startSession ''blog.example.com'' 7 1 ?w))"
    using start_after_three_calls by (metis prod.collapse)
  from single_active_session [of "[Start ''example.com'' 123 1, Pause, Stop]" world_idle
        "''blog.example.com''" 7 1 ?s "snd (startSession ''blog.example.com'' 7 1 ?w)"] ok
  show ?thesis by blast
qed

lemma trim_Nil [simp]: "trim [] = []"
  by (simp add: trim_def)

text \<open>
  Claim C3, as the code has it: when an active session is stored and the backend read of
  the slot succeeds, \<open>startSession\<close> fails and the storage is left as it was; with
  arguments that pass validation the failure is the conflict error. (As stated, for every
  call, the claim fails: \<open>getActiveSession\<close> turns a rejected read into \<open>null\<close>, and
  \<open>startSession\<close> then writes the new session over the stored one; and arguments that
  do not pass validation get the validation error.)
\<close>

theorem startSession_conflict:
  assumes "activeSession_p (store w) = Some (Some a)" and "backend_fault w (tick w) = None"
  shows "(\<exists>e. fst (startSession d t wi w) = Inl e) \<and>
         store (snd (startSession d t wi w)) = store w \<and>
         (trim d \<noteq> [] \<and> isInteger t \<and> 0 \<le> t \<and> isInteger wi \<and> 0 \<le> wi \<longrightarrow>
            startSession d t wi w =
              (Inl (Error ''Failed to start session: Error: Cannot start session: another session is already active''),
               step w))"
  using assms
  by (auto simp: startSession_def rethrow_def getActiveSession_ok)

theorem startSession_conflict_witness:
  "fst (startSession ''other.org'' 2 1 world_active) =
      Inl (Error ''Failed to start session: Error: Cannot start session: another session is already active'') \<and>
   activeSession_p (store (snd (startSession ''other.org'' 2 1 world_active))) =
      Some (Some session_example)"
proof -
  have a: "activeSession_p (store world_active) = Some (Some session_example)"
    by code_simp
  have b: "backend_fault world_active (tick world_active) = None"
    by code_simp
  have v: "trim ''other.org'' \<noteq> [] \<and> isInteger 2 \<and> (0::rat) \<le> 2 \<and> isInteger 1 \<and> (0::rat) \<le> 1"
    by code_simp
  from startSession_conflict [OF a b, of "''other.org''" 2 1] v a show ?thesis
    by simp
qed

theorem startSession_conflict_counterexample:
  "activeSession_p (store world_active_read_fails) = Some (Some session_example) \<and>
   fst (startSession ''other.org'' 2 1 world_active_read_fails) =
     Inr \<lparr>domain = ''other.org'', startTime = 1500, tabId = 2, windowId = 1,
           isPaused = Some False\<rparr> \<and>
   activeSession_p (store (snd (startSession ''other.org'' 2 1 world_active_read_fails))) =
     Some (Some \<lparr>domain = ''other.org'', startTime = 1500, tabId = 2, windowId = 1,
                 isPaused = Some False\<rparr>) \<and>
   activeSession_p (store world_active) = Some (Some session_example) \<and>
   fst (startSession [] 2 1 world_active) =
     Inl (Error ''Failed to start session: Error: Domain cannot be empty'')"
  by code_simp

section \<open>Reading the whole schema\<close>

text \<open>
  Claim C5, as the code has it: when the backend read succeeds, \<open>getAll\<close> returns a
  complete schema; a root key that is missing (or holds a falsy number) is filled with its
  default: no domains, no active session, the default settings, version \<open>1\<close>, and
  \<open>Date.now()\<close> for the install date; the storage is not written. When the backend
  read rejects, \<open>getAll\<close> fails with a new error that carries the cause. (As stated,
  that \<open>getAll\<close> never fails outward, the claim fails.)
\<close>

theorem getAll_backfills:
  "(backend_fault w (tick w) = None \<longrightarrow>
      (\<exists>r w'. getAll w = (Inr r, w') \<and> store w' = store w \<and>
         domains r = (case domains_p (store w) of Some d \<Rightarrow> d | None \<Rightarrow> Map.empty) \<and>
         activeSession r =
           (case activeSession_p (store w) of Some (Some s) \<Rightarrow> Some s | _ \<Rightarrow> None) \<and>
         settings r =
           (case settings_p (store w) of
              Some s \<Rightarrow> s
            | None \<Rightarrow> \<lparr>pillPosition = TopRight, pillVisibility = True,
                        dataRetentionDays = 30, excludedDomains = []\<rparr>) \<and>
         version r = (case version_p (store w) of Some v \<Rightarrow> if v = 0 then 1 else v | None \<Rightarrow> 1) \<and>
         installDate r =
           (case installDate_p (store w) of
              Some t \<Rightarrow> if t = 0 then date_now w (Suc (tick w)) else t
            | None \<Rightarrow> date_now w (Suc (tick w))))) \<and>
   (\<forall>m. backend_fault w (tick w) = Some m \<longrightarrow>
      getAll w =
        (Inl (Error (''Failed to get all storage data: Error: Failed to get storage data: Error: '' @ m)),
         step w))"
proof (cases "backend_fault w (tick w)")
  case None
  then show ?thesis
    by (simp add: getAll_def get_storage_ok pick_def Date_now_def truthy_def getDefaultSettings_def
          split: option.splits)
next
  case (Some m)
  then show ?thesis
    by (simp add: getAll_def get_storage_fail)
qed

theorem getAll_backfills_witness:
  "(\<exists>r w'. getAll world_active = (Inr r, w') \<and> domains r = Map.empty \<and>
       activeSession r = Some session_example \<and> settings r = getDefaultSettings \<and>
       version r = 1 \<and> installDate r = 1640995200001) \<and>
   getAll world_active_read_fails =
     (Inl (Error ''Failed to get all storage data: Error: Failed to get storage data: Error: Storage error''),
      step world_active_read_fails)"
proof -
  have a: "backend_fault world_active (tick world_active) = None"
    by code_simp
  have s: "domains_p (store world_active) = None"
    "activeSession_p (store world_active) = Some (Some session_example)"
    "settings_p (store world_active) = None" "version_p (store world_active) = None"
    "installDate_p (store world_active) = None"
    "date_now world_active (Suc (tick world_active)) = 1640995200001"
    by (simp_all add: world_active_def world_idle_def no_items_def)
  have b: "backend_fault world_active_read_fails (tick world_active_read_fails) = Some ''Storage error''"
    by code_simp
  from getAll_backfills [of world_active] a s getAll_backfills [of world_active_read_fails] b
  show ?thesis by (auto simp: getDefaultSettings_def)
qed

theorem getAll_fails_counterexample:
  "fst (getAll world_active_read_fails) =
     Inl (Error ''Failed to get all storage data: Error: Failed to get storage data: Error: Storage error'')"
  by (simp add: getAll_def get_storage_fail world_active_read_fails_def world_active_def
        world_idle_def)

section \<open>Bootstrapping the storage\<close>

lemma initialize_unfold:
  assumes "backend_fault w (tick w) = None"
  shows "initialize w =
     (let vt = (case version_p (store w) of Some v \<Rightarrow> v \<noteq> 0 | None \<Rightarrow> False);
          it = (case installDate_p (store w) of Some t \<Rightarrow> t \<noteq> 0 | None \<Rightarrow> False);
          st = (settings_p (store w) \<noteq> None);
          u = \<lparr>domains_p = None, activeSession_p = None,
               settings_p = (if st then None else Some getDefaultSettings),
               version_p = (if vt then None else Some 1),
               installDate_p = (if it then None else Some (date_now w (Suc (tick w))))\<rparr>;
          w2 = (if it then step w else step (step w))
      in if vt \<and> it \<and> st then (Inr (), w2)
         else (case backend_fault w (tick w2) of
                 None \<Rightarrow> (Inr (), step (w2\<lparr>store := assign (store w) u\<rparr>))
               | Some m \<Rightarrow>
                   (Inl (Error (''Failed to initialize storage: Error: Failed to set storage data: Error: '' @ m)),
                    step w2)))"
proof -
  have g: "get_storage [K_version, K_installDate, K_settings] w =
      (Inr (pick [K_version, K_installDate, K_settings] (store w)), step w)"
    using assms by (rule get_storage_ok)
  show ?thesis
    unfolding initialize_def g
    by (cases "version_p (store w)"; cases "installDate_p (store w)"; cases "settings_p (store w)")
       (simp_all add: pick_def truthy_def Date_now_def no_items_def keys_of_def Let_def
          set_storage_def storage_set_def split: option.splits)
qed

lemma initialize_get_fail:
  "backend_fault w (tick w) = Some m \<Longrightarrow>
   initialize w =
     (Inl (Error (''Failed to initialize storage: Error: Failed to get storage data: Error: '' @ m)),
      step w)"
  by (simp add: initialize_def get_storage_fail)

lemma init_keeps_version:
  "version_p (store w) = Some v \<Longrightarrow> v \<noteq> 0 \<Longrightarrow> version_p (store (snd (initialize w))) = Some v"
  by (cases "backend_fault w (tick w)")
     (auto simp: initialize_unfold initialize_get_fail Let_def assign_def split: option.splits)

lemma init_keeps_installDate:
  "installDate_p (store w) = Some t \<Longrightarrow> t \<noteq> 0 \<Longrightarrow>
   installDate_p (store (snd (initialize w))) = Some t"
  by (cases "backend_fault w (tick w)")
     (auto simp: initialize_unfold initialize_get_fail Let_def assign_def split: option.splits)

lemma init_keeps_settings:
  "settings_p (store w) = Some s \<Longrightarrow> settings_p (store (snd (initialize w))) = Some s"
  by (cases "backend_fault w (tick w)")
     (auto simp: initialize_unfold initialize_get_fail Let_def assign_def split: option.splits)

lemma init_keeps_others:
  "domains_p (store (snd (initialize w))) = domains_p (store w) \<and>
   activeSession_p (store (snd (initialize w))) = activeSession_p (store w)"
  by (cases "backend_fault w (tick w)")
     (auto simp: initialize_unfold initialize_get_fail Let_def assign_def split: option.splits)

lemma init_noop:
  "version_p (store w) = Some v \<Longrightarrow> v \<noteq> 0 \<Longrightarrow> installDate_p (store w) = Some t \<Longrightarrow> t \<noteq> 0 \<Longrightarrow>
   settings_p (store w) = Some s \<Longrightarrow> store (snd (initialize w)) = store w"
  by (cases "backend_fault w (tick w)")
     (auto simp: initialize_unfold initialize_get_fail Let_def)

lemma init_fills:
  assumes "fst (initialize w) = Inr ()"
  shows "version_p (store (snd (initialize w))) =
     Some (case version_p (store w) of Some v \<Rightarrow> if v = 0 then 1 else v | None \<Rightarrow> 1) \<and>
   installDate_p (store (snd (initialize w))) =
     Some (case installDate_p (store w) of
             Some t \<Rightarrow> if t = 0 then date_now w (Suc (tick w)) else t
           | None \<Rightarrow> date_now w (Suc (tick w))) \<and>
   settings_p (store (snd (initialize w))) =
     Some (case settings_p (store w) of Some s \<Rightarrow> s | None \<Rightarrow> getDefaultSettings)"
proof (cases "backend_fault w (tick w)")
  case (Some m)
  with assms show ?thesis by (simp add: initialize_get_fail)
next
  case None
  from assms show ?thesis
    unfolding initialize_unfold [OF None]
    by (auto simp: Let_def assign_def split: option.splits if_splits)
qed

lemma init_twice:
  assumes ok: "fst (initialize w) = Inr ()" and clock: "\<forall>n. date_now w n \<noteq> 0"
  shows "store (snd (initialize (snd (initialize w)))) = store (snd (initialize w))"
proof -
  let ?w1 = "snd (initialize w)"
  from init_fills [OF ok] clock
  obtain v t s where "version_p (store ?w1) = Some v" "v \<noteq> 0"
    "installDate_p (store ?w1) = Some t" "t \<noteq> 0" "settings_p (store ?w1) = Some s"
    by (auto split: option.splits if_splits)
  then show ?thesis by (rule init_noop)
qed

text \<open>
  Claim C7: \<open>initialize\<close> is idempotent. In a storage as this code leaves it (a stored
  version or install date is a non-zero number: the code writes version \<open>1\<close> and a
  reading of \<open>Date.now()\<close>, which is never \<open>0\<close>), \<open>initialize\<close> never changes
  a value that is there: a stored version, install date or settings object, and the other
  two root keys, are after the call what they were before, whether the call succeeds or
  fails. When it succeeds, each of the three keys that was absent holds its default. And a
  second call right after a successful one leaves the storage exactly as the first left
  it.
\<close>

theorem initialize_idempotent:
  assumes "\<forall>v. version_p (store w) = Some v \<longrightarrow> v \<noteq> 0"
    and "\<forall>t. installDate_p (store w) = Some t \<longrightarrow> t \<noteq> 0"
    and "\<forall>n. date_now w n \<noteq> 0"
  shows "(\<forall>v. version_p (store w) = Some v \<longrightarrow>
            version_p (store (snd (initialize w))) = Some v) \<and>
         (\<forall>t. installDate_p (store w) = Some t \<longrightarrow>
            installDate_p (store (snd (initialize w))) = Some t) \<and>
         (\<forall>s. settings_p (store w) = Some s \<longrightarrow>
            settings_p (store (snd (initialize w))) = Some s) \<and>
         domains_p (store (snd (initialize w))) = domains_p (store w) \<and>
         activeSession_p (store (snd (initialize w))) = activeSession_p (store w) \<and>
         (fst (initialize w) = Inr () \<longrightarrow>
            version_p (store (snd (initialize w))) =
              Some (case version_p (store w) of Some v \<Rightarrow> v | None \<Rightarrow> 1) \<and>
            installDate_p (store (snd (initialize w))) =
              Some (case installDate_p (store w) of
                      Some t \<Rightarrow> t
                    | None \<Rightarrow> date_now w (Suc (tick w))) \<and>
            settings_p (store (snd (initialize w))) =
              Some (case settings_p (store w) of Some s \<Rightarrow> s | None \<Rightarrow> getDefaultSettings) \<and>
            store (snd (initialize (snd (initialize w)))) = store (snd (initialize w)))"
proof -
  have fills: "version_p (store (snd (initialize w))) =
        Some (case version_p (store w) of Some v \<Rightarrow> v | None \<Rightarrow> 1) \<and>
      installDate_p (store (snd (initialize w))) =
        Some (case installDate_p (store w) of
                Some t \<Rightarrow> t
              | None \<Rightarrow> date_now w (Suc (tick w))) \<and>
      settings_p (store (snd (initialize w))) =
        Some (case settings_p (store w) of Some s \<Rightarrow> s | None \<Rightarrow> getDefaultSettings)"
    if "fst (initialize w) = Inr ()"
    using init_fills [OF that] assms(1,2) by (auto split: option.splits)
  show ?thesis
    using init_keeps_version [of w] init_keeps_installDate [of w] init_keeps_settings [of w]
      init_keeps_others [of w] init_twice [of w] fills assms
    by blast
qed

lemma date_now_idle: "\<forall>n. date_now world_idle n \<noteq> 0"
proof
  fix n
  have "(0::rat) < 1640995200000 + of_nat n"
    by (rule add_pos_nonneg) simp_all
  then show "date_now world_idle n \<noteq> 0"
    by (simp add: world_idle_def)
qed

lemma initialize_examples:
  "fst (initialize world_idle) = Inr ()"
  "version_p (store (snd (initialize world_idle))) = Some 1"
  "version_p (store world_partial) = Some 3"
  "fst (initialize world_partial) = Inr ()"
  "installDate_p (store (snd (initialize world_partial))) = Some 1640995200001"
  by code_simp+

theorem initialize_idempotent_witness:
  "fst (initialize world_idle) = Inr () \<and>
   version_p (store (snd (initialize world_idle))) = Some 1 \<and>
   store (snd (initialize (snd (initialize world_idle)))) = store (snd (initialize world_idle)) \<and>
   version_p (store world_partial) = Some 3 \<and>
   fst (initialize world_partial) = Inr () \<and>
   version_p (store (snd (initialize world_partial))) = Some 3 \<and>
   installDate_p (store (snd (initialize world_partial))) = Some 1640995200001"
proof -
  have idle: "\<forall>v. version_p (store world_idle) = Some v \<longrightarrow> v \<noteq> 0"
    "\<forall>t. installDate_p (store world_idle) = Some t \<longrightarrow> t \<noteq> 0"
    by (simp_all add: world_idle_def no_items_def)
  have partial: "\<forall>v. version_p (store world_partial) = Some v \<longrightarrow> v \<noteq> 0"
    "\<forall>t. installDate_p (store world_partial) = Some t \<longrightarrow> t \<noteq> 0"
    "\<forall>n. date_now world_partial n \<noteq> 0"
    using date_now_idle by (simp_all add: world_partial_def world_idle_def no_items_def)
  from initialize_idempotent [OF idle date_now_idle] initialize_examples(1)
  have "store (snd (initialize (snd (initialize world_idle)))) = store (snd (initialize world_idle))"
    by blast
  moreover from initialize_idempotent [OF partial] initialize_examples(3)
  have "version_p (store (snd (initialize world_partial))) = Some 3"
    by blast
  ultimately show ?thesis
    using initialize_examples by simp
qed

section \<open>Updating the record of a domain\<close>

lemma updateDomainData_get_fail:
  "backend_fault w (tick w) = Some m \<Longrightarrow>
   updateDomainData d u w =
     (Inl (Error (''Failed to update domain data for '' @ d @
                  '': Error: Failed to get storage data: Error: '' @ m)),
      step w)"
  by (simp add: updateDomainData_def get_storage_fail)

lemma updateDomainData_unfold:
  assumes "backend_fault w (tick w) = None"
  shows "updateDomainData d u w =
     (let ds = (case domains_p (store w) of Some ds \<Rightarrow> ds | None \<Rightarrow> Map.empty);
          w2 = (case property ds d of Some dd \<Rightarrow> step w | None \<Rightarrow> step (step w));
          cur = (case property ds d of
                   Some dd \<Rightarrow> dd
                 | None \<Rightarrow> \<lparr>totalTime = Some (Finite 0), sessions = Some [],
                             dailyStats = Some Map.empty,
                             lastAccessed = Some (date_now w (Suc (tick w)))\<rparr>);
          upd = (spread cur u)\<lparr>lastAccessed := Some (date_now w (tick w2))\<rparr>
      in (case backend_fault w (Suc (tick w2)) of
            None \<Rightarrow>
              (Inr (), step (step (w2\<lparr>store := (store w)\<lparr>domains_p := Some (ds(d \<mapsto> upd))\<rparr>\<rparr>)))
          | Some m \<Rightarrow>
              (Inl (Error (''Failed to update domain data for '' @ d @
                           '': Error: Failed to set storage data: Error: '' @ m)),
               step (step w2))))"
proof -
  have g: "get_storage [K_domains] w = (Inr (pick [K_domains] (store w)), step w)"
    using assms by (rule get_storage_ok)
  show ?thesis
    unfolding updateDomainData_def g
    by (cases "domains_p (store w)")
       (auto simp: pick_def Date_now_def createEmptyDomainData_def no_items_def Let_def
          set_storage_def storage_set_def assign_def step_def split: option.splits)
qed

text \<open>
  Claim C9: \<open>updateDomainData d u\<close> leaves the stored record of every other domain
  as it was, whether the call succeeds or fails, and does not touch the other root keys.
  When it succeeds, the record of \<open>d\<close> has every property that \<open>u\<close> has, with the
  value from \<open>u\<close>; a property that \<open>u\<close> lacks is the one of the record that the
  lookup of \<open>d\<close> found (the stored record, for a name that is not stored the empty
  record, and for an inherited name that is not stored nothing); and \<open>lastAccessed\<close>
  is the reading of \<open>Date.now()\<close> taken for the stamp.
\<close>

theorem updateDomainData_frame:
  assumes "domains_p (store w) = Some ds" and "ds d' = Some dd" and "d' \<noteq> d"
  shows "\<exists>ds'. domains_p (store (snd (updateDomainData d u w))) = Some ds' \<and>
           ds' d' = Some dd \<and>
           (\<forall>k. k \<noteq> d \<longrightarrow> ds' k = ds k) \<and>
           (fst (updateDomainData d u w) = Inr () \<longrightarrow>
              (\<exists>new. ds' d = Some new \<and>
                 totalTime new =
                   (case totalTime u of
                      Some v \<Rightarrow> Some v
                    | None \<Rightarrow>
                        (case ds d of
                           Some cur \<Rightarrow> totalTime cur
                         | None \<Rightarrow>
                             if d \<in> set Object_prototype_keys then None else Some (Finite 0))) \<and>
                 sessions new =
                   (case sessions u of
                      Some v \<Rightarrow> Some v
                    | None \<Rightarrow>
                        (case ds d of
                           Some cur \<Rightarrow> sessions cur
                         | None \<Rightarrow> if d \<in> set Object_prototype_keys then None else Some [])) \<and>
                 dailyStats new =
                   (case dailyStats u of
                      Some v \<Rightarrow> Some v
                    | None \<Rightarrow>
                        (case ds d of
                           Some cur \<Rightarrow> dailyStats cur
                         | None \<Rightarrow>
                             if d \<in> set Object_prototype_keys then None else Some Map.empty)) \<and>
                 lastAccessed new =
                   Some (date_now w
                          (if ds d = None \<and> d \<notin> set Object_prototype_keys
                           then Suc (Suc (tick w)) else Suc (tick w))))) \<and>
           (fst (updateDomainData d u w) \<noteq> Inr () \<longrightarrow> ds' = ds) \<and>
           activeSession_p (store (snd (updateDomainData d u w))) = activeSession_p (store w) \<and>
           settings_p (store (snd (updateDomainData d u w))) = settings_p (store w) \<and>
           version_p (store (snd (updateDomainData d u w))) = version_p (store w) \<and>
           installDate_p (store (snd (updateDomainData d u w))) = installDate_p (store w)"
proof (cases "backend_fault w (tick w)")
  case (Some m)
  with assms show ?thesis by (simp add: updateDomainData_get_fail)
next
  case None
  from assms show ?thesis
    unfolding updateDomainData_unfold [OF None]
    by (cases "ds d"; cases "d \<in> set Object_prototype_keys")
       (auto simp: Let_def property_def spread_def inherited_member_def split: option.splits)
qed

lemma update_examples:
  "fst (updateDomainData ''other.org''
          \<lparr>totalTime = Some (Finite 42), sessions = None, dailyStats = None, lastAccessed = None\<rparr>
          world_tracked) = Inr ()"
  "totalTime_of (snd (updateDomainData ''other.org''
          \<lparr>totalTime = Some (Finite 42), sessions = None, dailyStats = None, lastAccessed = None\<rparr>
          world_tracked)) ''other.org'' = 42"
  "fst (updateDomainData ''constructor''
          \<lparr>totalTime = Some (Finite 42), sessions = None, dailyStats = None, lastAccessed = None\<rparr>
          world_tracked) = Inr ()"
  by code_simp+

theorem updateDomainData_frame_witness:
  "fst (updateDomainData ''other.org''
          \<lparr>totalTime = Some (Finite 42), sessions = None, dailyStats = None, lastAccessed = None\<rparr>
          world_tracked) = Inr () \<and>
   totalTime_of (snd (updateDomainData ''other.org''
          \<lparr>totalTime = Some (Finite 42), sessions = None, dailyStats = None, lastAccessed = None\<rparr>
          world_tracked)) ''other.org'' = 42 \<and>
   stored_domain world_tracked ''example.com'' = Some example_data \<and>
   stored_domain (snd (updateDomainData ''other.org''
          \<lparr>totalTime = Some (Finite 42), sessions = None, dailyStats = None, lastAccessed = None\<rparr>
          world_tracked)) ''example.com'' = Some example_data \<and>
   stored_domain (snd (updateDomainData ''constructor''
          \<lparr>totalTime = Some (Finite 42), sessions = None, dailyStats = None, lastAccessed = None\<rparr>
          world_tracked)) ''example.com'' = Some example_data \<and>
   stored_domain (snd (updateDomainData ''constructor''
          \<lparr>totalTime = Some (Finite 42), sessions = None, dailyStats = None, lastAccessed = None\<rparr>
          world_tracked)) ''constructor'' =
     Some \<lparr>totalTime = Some (Finite 42), sessions = None, dailyStats = None,
            lastAccessed = Some 1640995200001\<rparr>"
proof -
  let ?u = "\<lparr>totalTime = Some (Finite 42), sessions = None, dailyStats = None,
              lastAccessed = None\<rparr>"
  have a: "domains_p (store world_tracked) = Some [''example.com'' \<mapsto> example_data]"
    by (simp add: world_tracked_def world_idle_def no_items_def)
  have b: "[''example.com'' \<mapsto> example_data] ''example.com'' = Some example_data"
    by simp
  have c: "''example.com'' \<noteq> ''other.org''" "''example.com'' \<noteq> ''constructor''"
    by simp_all
  have k: "''constructor'' \<in> set Object_prototype_keys"
    by (simp add: Object_prototype_keys_def)
  have t: "date_now world_tracked (Suc (tick world_tracked)) = 1640995200001"
    by (simp add: world_tracked_def world_idle_def)
  from updateDomainData_frame [OF a b c(1), of ?u] a update_examples(1,2)
  have first: "fst (updateDomainData ''other.org'' ?u world_tracked) = Inr () \<and>
      totalTime_of (snd (updateDomainData ''other.org'' ?u world_tracked)) ''other.org'' = 42 \<and>
      stored_domain world_tracked ''example.com'' = Some example_data \<and>
      stored_domain (snd (updateDomainData ''other.org'' ?u world_tracked)) ''example.com'' =
        Some example_data"
    by (auto simp: stored_domain_def)
  from updateDomainData_frame [OF a b c(2), of ?u] update_examples(3) k t
  obtain ds' new where r: "domains_p (store (snd (updateDomainData ''constructor'' ?u world_tracked))) = Some ds'"
    "ds' ''example.com'' = Some example_data" "ds' ''constructor'' = Some new"
    "totalTime new = Some (Finite 42)" "sessions new = None" "dailyStats new = None"
    "lastAccessed new = Some 1640995200001"
    by auto
  then have "new = \<lparr>totalTime = Some (Finite 42), sessions = None, dailyStats = None,
                    lastAccessed = Some 1640995200001\<rparr>"
    by simp
  with r have "stored_domain (snd (updateDomainData ''constructor'' ?u world_tracked)) ''example.com'' =
        Some example_data \<and>
      stored_domain (snd (updateDomainData ''constructor'' ?u world_tracked)) ''constructor'' =
        Some \<lparr>totalTime = Some (Finite 42), sessions = None, dailyStats = None,
               lastAccessed = Some 1640995200001\<rparr>"
    by (simp add: stored_domain_def)
  with first show ?thesis by simp
qed

section \<open>Stopping a session\<close>

lemma getDomainData_store [simp]: "store (snd (getDomainData d w)) = store w"
proof (cases "backend_fault w (tick w)")
  case None
  then show ?thesis
    by (simp add: getDomainData_def get_storage_ok createEmptyDomainData_def Date_now_def
          split: option.splits)
next
  case (Some m)
  then show ?thesis
    by (simp add: getDomainData_def get_storage_fail createEmptyDomainData_def Date_now_def)
qed

lemma updateDomainData_fail_store:
  assumes "updateDomainData d u w = (Inl e, w')"
  shows "store w' = store w"
proof (cases "backend_fault w (tick w)")
  case (Some m)
  with assms show ?thesis by (auto simp: updateDomainData_get_fail)
next
  case None
  from assms show ?thesis
    unfolding updateDomainData_unfold [OF None]
    by (auto simp: Let_def split: option.splits)
qed

lemma TimeTracker_updateDomainData_fail_store:
  assumes "TimeTracker_updateDomainData d s w = (Inl e, w')"
  shows "store w' = store w"
proof -
  obtain dd w1 where g: "getDomainData d w = (dd, w1)"
    by (cases "getDomainData d w")
  then have same: "store w1 = store w"
    using getDomainData_store [of d w] by simp
  show ?thesis
  proof (cases "dailyStats dd")
    case None
    with assms g have "w' = step w1"
      by (simp add: TimeTracker_updateDomainData_def Date_now_def Let_def)
    with same show ?thesis by simp
  next
    case stats: (Some stats)
    show ?thesis
    proof (cases "sessions dd")
      case None
      with assms g stats have "w' = step w1"
        by (simp add: TimeTracker_updateDomainData_def Date_now_def Let_def)
      with same show ?thesis by simp
    next
      case (Some ss)
      with assms g stats obtain u where "updateDomainData d u (step (step w1)) = (Inl e, w')"
        by (auto simp: TimeTracker_updateDomainData_def Date_now_def Let_def)
      then have "store w' = store (step (step w1))"
        by (rule updateDomainData_fail_store)
      with same show ?thesis by simp
    qed
  qed
qed

lemma getActiveSession_Some:
  assumes "getActiveSession w = (Some a, w1)"
  shows "activeSession_p (store w) = Some (Some a) \<and> w1 = step w \<and>
         backend_fault w (tick w) = None"
proof (cases "backend_fault w (tick w)")
  case None
  with assms show ?thesis
    by (auto simp: getActiveSession_ok split: option.splits)
next
  case (Some m)
  with assms show ?thesis by (simp add: getActiveSession_fail)
qed

text \<open>
  Claim C10: when \<open>stopSession\<close> has read an active session and the fold of the
  completed session into the domain's data fails with an error \<open>e\<close>, then
  \<open>stopSession\<close> throws \<open>Failed to stop session: e\<close>, and the storage is as it
  was before the call: the active session is still in its slot.
\<close>

theorem stopSession_fold_failure:
  assumes active: "getActiveSession w = (Some a, w1)"
    and fold: "TimeTracker_updateDomainData (domain a)
        \<lparr>Session.startTime = startTime a, endTime = Some (perf_now w1 (tick w1)),
         duration = max 0 (fl w1 (perf_now w1 (tick w1) - startTime a)),
         Session.tabId = tabId a, Session.windowId = windowId a\<rparr> (step w1) = (Inl e, w')"
  shows "stopSession w = (Inl (Error (''Failed to stop session: '' @ toStr e)), w') \<and>
         store w' = store w \<and> activeSession_p (store w') = Some (Some a)"
proof -
  from active have a: "activeSession_p (store w) = Some (Some a)" and w1: "w1 = step w"
    using getActiveSession_Some by blast+
  have stop: "stopSession w = (Inl (Error (''Failed to stop session: '' @ toStr e)), w')"
    using active fold
    by (simp add: stopSession_def rethrow_def performance_now_def calculateDuration_def Let_def
          w1)
  from fold have "store w' = store (step w1)"
    by (rule TimeTracker_updateDomainData_fail_store)
  with w1 a stop show ?thesis by simp
qed

lemma fold_fails_on_write:
  "fst (TimeTracker_updateDomainData ''example.com''
          \<lparr>Session.startTime = 1000, endTime = Some 1500, duration = 500,
           Session.tabId = 1, Session.windowId = 1\<rparr>
          (step (step world_active_fold_fails))) =
     Inl (Error ''Failed to update domain data for example.com: Error: Failed to set storage data: Error: Quota exceeded'')"
  by code_simp

theorem stopSession_fold_failure_witness:
  "fst (stopSession world_active_fold_fails) =
     Inl (Error ''Failed to stop session: Error: Failed to update domain data for example.com: Error: Failed to set storage data: Error: Quota exceeded'') \<and>
   activeSession_p (store world_active_fold_fails) = Some (Some session_example) \<and>
   activeSession_p (store (snd (stopSession world_active_fold_fails))) =
     Some (Some session_example)"
proof -
  let ?w = world_active_fold_fails
  let ?c = "\<lparr>Session.startTime = startTime session_example,
             endTime = Some (perf_now (step ?w) (tick (step ?w))),
             duration = max 0 (fl (step ?w) (perf_now (step ?w) (tick (step ?w)) -
                                           startTime session_example)),
             Session.tabId = tabId session_example,
             Session.windowId = windowId session_example\<rparr>"
  let ?e = "Error ''Failed to update domain data for example.com: Error: Failed to set storage data: Error: Quota exceeded''"
  have slot: "activeSession_p (store ?w) = Some (Some session_example)"
    by (simp add: world_active_fold_fails_def world_active_def world_idle_def no_items_def)
  have active: "getActiveSession ?w = (Some session_example, step ?w)"
    by (simp add: getActiveSession_ok world_active_fold_fails_def world_active_def
          world_idle_def no_items_def)
  have c: "?c = \<lparr>Session.startTime = 1000, endTime = Some 1500, duration = 500,
                 Session.tabId = 1, Session.windowId = 1\<rparr>"
    by (simp add: session_example_def world_active_fold_fails_def world_active_def world_idle_def)
  have d: "domain session_example = ''example.com''"
    by (simp add: session_example_def)
  have fold: "TimeTracker_updateDomainData (domain session_example) ?c (step (step ?w)) =
      (Inl ?e, snd (TimeTracker_updateDomainData (domain session_example) ?c (step (step ?w))))"
    unfolding c d using fold_fails_on_write by (simp add: prod_eq_iff)
  from stopSession_fold_failure [OF active fold] slot show ?thesis
    by simp
qed

section \<open>The fold of a completed session\<close>

text \<open>
  The key of a daily bucket begins with a digit or a sign, and every inherited name with a
  letter or an underscore: the lookup of a bucket never finds an inherited member.
\<close>

lemma digit_in: "digit n \<in> set ''0123456789''"
proof -
  have "n mod 10 < length ''0123456789''" by simp
  then show ?thesis unfolding digit_def by (rule nth_mem)
qed

lemma pad_digits: "set (pad n k) \<subseteq> set ''0123456789''"
proof (induction n arbitrary: k)
  case 0
  show ?case by (simp only: pad.simps list.set empty_subsetI)
next
  case (Suc n)
  have "set (pad (Suc n) k) = set (pad n (k div 10)) \<union> {digit k}"
    by (simp only: pad.simps set_append list.set)
  with Suc [of "k div 10"] digit_in [of k] show ?case
    by blast
qed

lemma hd_pad: "hd (pad (Suc n) k) \<in> set ''0123456789''"
proof -
  have "pad (Suc n) k \<noteq> []" by (simp only: pad.simps) simp
  then have "hd (pad (Suc n) k) \<in> set (pad (Suc n) k)" by (rule hd_in_set)
  with pad_digits show ?thesis by blast
qed


lemma hd_toISODate: "hd (toISODate ymd) \<in> set ''0123456789+-''"
proof -
  obtain y m d where ymd: "ymd = (y, m, d)"
    by (cases ymd)
  let ?rest = "''-'' @ pad 2 m @ ''-'' @ pad 2 d"
  show ?thesis
  proof (cases "0 \<le> y \<and> y \<le> 9999")
    case True
    have four: "pad 4 (nat y) = pad (Suc 3) (nat y)"
      by (rule arg_cong [where f = "\<lambda>n. pad n (nat y)"]) simp
    have ne: "pad (Suc 3) (nat y) \<noteq> []"
      by (simp only: pad.simps) simp
    from True have "toISODate ymd = pad 4 (nat y) @ ?rest"
      by (simp add: ymd toISODate_def)
    then have "hd (toISODate ymd) = hd (pad (Suc 3) (nat y) @ ?rest)"
      by (simp only: four)
    also from ne have "\<dots> = hd (pad (Suc 3) (nat y))"
      by (rule hd_append2)
    finally have "hd (toISODate ymd) \<in> set ''0123456789''"
      using hd_pad [of 3 "nat y"] by (simp only:)
    moreover have "set ''0123456789'' \<subseteq> set ''0123456789+-''"
      by simp
    ultimately show ?thesis
      by blast
  next
    case False
    then have "hd (toISODate ymd) = (if y < 0 then CHR ''-'' else CHR ''+'')"
      by (simp add: ymd toISODate_def)
    then show ?thesis by simp
  qed
qed

lemma inherited_hd: "k \<in> set Object_prototype_keys \<Longrightarrow> hd k \<in> set ''cd_hiptv''"
  unfolding Object_prototype_keys_def set_simps insert_iff empty_iff
  by (elim disjE) simp_all

lemma toISODate_not_inherited: "toISODate ymd \<notin> set Object_prototype_keys"
proof
  assume "toISODate ymd \<in> set Object_prototype_keys"
  then have "hd (toISODate ymd) \<in> set ''cd_hiptv''"
    by (rule inherited_hd)
  moreover have "set ''cd_hiptv'' \<inter> set ''0123456789+-'' = {}"
    by simp
  ultimately show False
    using hd_toISODate [of ymd] by blast
qed

lemma getDomainData_ok:
  "backend_fault w (tick w) = None \<Longrightarrow>
   getDomainData d w =
     (case (case domains_p (store w) of Some ds \<Rightarrow> property ds d | None \<Rightarrow> None) of
        Some dd \<Rightarrow> (dd, step w)
      | None \<Rightarrow> (\<lparr>totalTime = Some (Finite 0), sessions = Some [], dailyStats = Some Map.empty,
                   lastAccessed = Some (date_now w (Suc (tick w)))\<rparr>, step (step w)))"
  by (simp add: getDomainData_def get_storage_ok pick_def
        createEmptyDomainData_def Date_now_def split: option.splits)

lemma updateDomainData_full:
  assumes nf: "\<forall>n. backend_fault w n = None"
    and full: "totalTime u = Some tt" "sessions u = Some ss" "dailyStats u = Some st"
  shows "\<exists>w' t. updateDomainData d u w = (Inr (), w') \<and>
           backend_fault w' = backend_fault w \<and> tick w < tick w' \<and>
           activeSession_p (store w') = activeSession_p (store w) \<and>
           stored_domain w' d =
             Some \<lparr>totalTime = Some tt, sessions = Some ss, dailyStats = Some st,
                    lastAccessed = Some t\<rparr>"
proof -
  have f: "backend_fault w (tick w) = None"
    using nf by simp
  show ?thesis
    unfolding updateDomainData_unfold [OF f]
    using nf full
    by (cases "property (case domains_p (store w) of Some ds \<Rightarrow> ds | None \<Rightarrow> Map.empty) d")
       (simp_all add: Let_def spread_def stored_domain_def)
qed

lemmas observer_defs = totalTime_of_def sessions_of_def bucket_of_def

lemma fold_from:
  assumes nf: "\<forall>n. backend_fault w n = None"
    and read: "getDomainData d w = (\<lparr>totalTime = Some (Finite x), sessions = Some ss,
        dailyStats = Some st, lastAccessed = la\<rparr>, w1)"
    and w1: "backend_fault w1 = backend_fault w" "tick w \<le> tick w1" "store w1 = store w"
      "date_now w1 = date_now w" 
  shows "\<exists>w'. TimeTracker_updateDomainData d s w = (Inr (), w') \<and>
           backend_fault w' = backend_fault w \<and> tick w1 < tick w' \<and>
           activeSession_p (store w') = activeSession_p (store w) \<and>
           totalTime_of w' d = fl w (x + duration s) \<and>
           sessions_of w' d = ss @ [s] \<and>
           bucket_of w' d (toISODate (utc_date w (date_now w (tick w1)))) =
             fl w ((case st (toISODate (utc_date w (date_now w (tick w1)))) of
                      Some v \<Rightarrow> v | None \<Rightarrow> 0) + duration s) \<and>
           (\<forall>k. k \<noteq> toISODate (utc_date w (date_now w (tick w1))) \<longrightarrow>
                bucket_of w' d k = (case st k of Some v \<Rightarrow> v | None \<Rightarrow> 0))"
proof -
  let ?key = "toISODate (utc_date w (date_now w (tick w1)))"
  let ?u = "\<lparr>totalTime = Some (Finite (fl w (x + duration s))), sessions = Some (ss @ [s]),
             dailyStats = Some (st(?key \<mapsto>
               fl w ((case st ?key of Some v \<Rightarrow> if truthy v then v else 0 | None \<Rightarrow> 0) +
                     duration s))),
             lastAccessed = Some (date_now w (Suc (tick w1)))\<rparr>"
  let ?w3 = "step (step w1)"
  have t: "TimeTracker_updateDomainData d s w = updateDomainData d ?u ?w3"
    by (simp add: TimeTracker_updateDomainData_def read Date_now_def Let_def w1)
  have nf3: "\<forall>n. backend_fault ?w3 n = None"
    using nf w1 by simp
  let ?st' = "st(?key \<mapsto>
               fl w ((case st ?key of Some v \<Rightarrow> if truthy v then v else 0 | None \<Rightarrow> 0) +
                     duration s))"
  have full: "totalTime ?u = Some (Finite (fl w (x + duration s)))"
    "sessions ?u = Some (ss @ [s])" "dailyStats ?u = Some ?st'"
    by simp_all
  from updateDomainData_full [OF nf3 full, of d]
  obtain w' t' where raw: "updateDomainData d ?u ?w3 = (Inr (), w') \<and>
      backend_fault w' = backend_fault ?w3 \<and> tick ?w3 < tick w' \<and>
      activeSession_p (store w') = activeSession_p (store ?w3) \<and>
      stored_domain w' d =
        Some \<lparr>totalTime = Some (Finite (fl w (x + duration s))), sessions = Some (ss @ [s]),
               dailyStats = Some ?st', lastAccessed = Some t'\<rparr>"
    by blast
  then have r: "updateDomainData d ?u ?w3 = (Inr (), w')"
    "backend_fault w' = backend_fault w" "tick w1 < tick w'"
    "activeSession_p (store w') = activeSession_p (store w)"
    "stored_domain w' d =
        Some \<lparr>totalTime = Some (Finite (fl w (x + duration s))), sessions = Some (ss @ [s]),
               dailyStats = Some ?st', lastAccessed = Some t'\<rparr>"
    using w1 by simp_all
  have z: "(case st ?key of Some v \<Rightarrow> if truthy v then v else 0 | None \<Rightarrow> 0) =
           (case st ?key of Some v \<Rightarrow> v | None \<Rightarrow> 0)"
    by (simp add: truthy_def split: option.splits)
  show ?thesis
    unfolding t using r by (simp add: observer_defs z)
qed


lemma fold_ok:
  assumes nf: "\<forall>n. backend_fault w n = None" and sound: "sound_for w d"
  shows "\<exists>n w'. TimeTracker_updateDomainData d s w = (Inr (), w') \<and>
           backend_fault w' = backend_fault w \<and> tick w \<le> n \<and> n < tick w' \<and>
           activeSession_p (store w') = activeSession_p (store w) \<and>
           totalTime_of w' d = fl w (totalTime_of w d + duration s) \<and>
           sessions_of w' d = sessions_of w d @ [s] \<and>
           bucket_of w' d (toISODate (utc_date w (date_now w n))) =
             fl w (bucket_of w d (toISODate (utc_date w (date_now w n))) + duration s) \<and>
           (\<forall>k. k \<noteq> toISODate (utc_date w (date_now w n)) \<longrightarrow>
                bucket_of w' d k = bucket_of w d k)"
proof (cases "case domains_p (store w) of Some ds \<Rightarrow> property ds d | None \<Rightarrow> None")
  case None
  have f: "backend_fault w (tick w) = None"
    using nf by simp
  from None sound have absent: "stored_domain w d = None"
    by (auto simp: stored_domain_def property_def sound_for_def split: option.splits if_splits)
  have read: "getDomainData d w =
      (\<lparr>totalTime = Some (Finite 0), sessions = Some [], dailyStats = Some Map.empty,
        lastAccessed = Some (date_now w (Suc (tick w)))\<rparr>, step (step w))"
    by (simp add: getDomainData_ok [OF f] None)
  have env: "backend_fault (step (step w)) = backend_fault w" "tick w \<le> tick (step (step w))"
    "store (step (step w)) = store w" "date_now (step (step w)) = date_now w"
    by simp_all
  from fold_from [OF nf read env, of s] obtain w' where
    "TimeTracker_updateDomainData d s w = (Inr (), w') \<and>
     backend_fault w' = backend_fault w \<and> tick (step (step w)) < tick w' \<and>
     activeSession_p (store w') = activeSession_p (store w) \<and>
     totalTime_of w' d = fl w (0 + duration s) \<and>
     sessions_of w' d = [] @ [s] \<and>
     bucket_of w' d (toISODate (utc_date w (date_now w (tick (step (step w)))))) =
       fl w ((case Map.empty (toISODate (utc_date w (date_now w (tick (step (step w)))))) of
                Some v \<Rightarrow> v | None \<Rightarrow> 0) + duration s) \<and>
     (\<forall>k. k \<noteq> toISODate (utc_date w (date_now w (tick (step (step w))))) \<longrightarrow>
          bucket_of w' d k = (case Map.empty k of Some v \<Rightarrow> v | None \<Rightarrow> (0::rat)))"
    by blast
  then show ?thesis
    by (intro exI [where x = "Suc (Suc (tick w))"] exI [where x = w'])
       (simp add: observer_defs absent)
next
  case (Some dd)
  have f: "backend_fault w (tick w) = None"
    using nf by simp
  from Some sound obtain x ss st la where stored: "stored_domain w d = Some dd"
    and dd: "dd = \<lparr>totalTime = Some (Finite x), sessions = Some ss, dailyStats = Some st,
                   lastAccessed = la\<rparr>"
    by (cases dd)
       (auto simp: stored_domain_def property_def sound_for_def complete_def
          split: option.splits if_splits jsnum.splits)
  have read: "getDomainData d w =
      (\<lparr>totalTime = Some (Finite x), sessions = Some ss, dailyStats = Some st,
        lastAccessed = la\<rparr>, step w)"
    by (simp add: getDomainData_ok [OF f] Some dd)
  have env: "backend_fault (step w) = backend_fault w" "tick w \<le> tick (step w)"
    "store (step w) = store w" "date_now (step w) = date_now w"
    by simp_all
  from fold_from [OF nf read env, of s] obtain w' where
    "TimeTracker_updateDomainData d s w = (Inr (), w') \<and>
     backend_fault w' = backend_fault w \<and> tick (step w) < tick w' \<and>
     activeSession_p (store w') = activeSession_p (store w) \<and>
     totalTime_of w' d = fl w (x + duration s) \<and>
     sessions_of w' d = ss @ [s] \<and>
     bucket_of w' d (toISODate (utc_date w (date_now w (tick (step w))))) =
       fl w ((case st (toISODate (utc_date w (date_now w (tick (step w))))) of
                Some v \<Rightarrow> v | None \<Rightarrow> 0) + duration s) \<and>
     (\<forall>k. k \<noteq> toISODate (utc_date w (date_now w (tick (step w)))) \<longrightarrow>
          bucket_of w' d k = (case st k of Some v \<Rightarrow> v | None \<Rightarrow> 0))"
    by blast
  then show ?thesis
    by (intro exI [where x = "Suc (tick w)"] exI [where x = w'])
       (simp add: observer_defs stored dd)
qed


lemma observers_step [simp]:
  "stored_domain (step w) d = stored_domain w d"
  "totalTime_of (step w) d = totalTime_of w d"
  "sessions_of (step w) d = sessions_of w d"
  "bucket_of (step w) d k = bucket_of w d k"
  "sound_for (step w) d = sound_for w d"
  by (simp_all add: stored_domain_def totalTime_of_def sessions_of_def bucket_of_def
        sound_for_def)

lemma observers_slot [simp]:
  "stored_domain (w\<lparr>store := (store w)\<lparr>activeSession_p := x\<rparr>\<rparr>) d = stored_domain w d"
  "totalTime_of (w\<lparr>store := (store w)\<lparr>activeSession_p := x\<rparr>\<rparr>) d = totalTime_of w d"
  "sessions_of (w\<lparr>store := (store w)\<lparr>activeSession_p := x\<rparr>\<rparr>) d = sessions_of w d"
  "bucket_of (w\<lparr>store := (store w)\<lparr>activeSession_p := x\<rparr>\<rparr>) d k = bucket_of w d k"
  by (simp_all add: stored_domain_def totalTime_of_def sessions_of_def bucket_of_def)

text \<open>
  Where the fold is sound, a stop does what is expected of it: with an active session
  stored and no backend call rejected, \<open>stopSession\<close> returns the completed
  session, the total of its domain is the former total plus its duration (as the engine
  adds), the session is appended to the domain's list, the daily bucket under the ISO date
  of a \<open>Date.now()\<close> reading taken during the call has grown by the duration, and
  the slot is cleared.
\<close>

lemma stopSession_folds_sound:
  assumes active: "activeSession_p (store w) = Some (Some a)"
    and nf: "\<forall>n. backend_fault w n = None"
    and sound: "sound_for w (domain a)"
  shows "\<exists>n w' sess. stopSession w = (Inr (Some sess), w') \<and>
           sess = \<lparr>Session.startTime = startTime a, endTime = Some (perf_now w (Suc (tick w))),
                   duration = max 0 (fl w (perf_now w (Suc (tick w)) - startTime a)),
                   Session.tabId = tabId a, Session.windowId = windowId a\<rparr> \<and>
           totalTime_of w' (domain a) = fl w (totalTime_of w (domain a) + duration sess) \<and>
           sessions_of w' (domain a) = sessions_of w (domain a) @ [sess] \<and>
           tick w \<le> n \<and> n < tick w' \<and>
           bucket_of w' (domain a) (toISODate (utc_date w (date_now w n))) =
             fl w (bucket_of w (domain a) (toISODate (utc_date w (date_now w n))) +
                   duration sess) \<and>
           (\<forall>k. k \<noteq> toISODate (utc_date w (date_now w n)) \<longrightarrow>
                bucket_of w' (domain a) k = bucket_of w (domain a) k) \<and>
           activeSession_p (store w') = Some None"
proof -
  let ?W = "step (step w)"
  let ?s = "\<lparr>Session.startTime = startTime a, endTime = Some (perf_now w (Suc (tick w))),
             duration = max 0 (fl w (perf_now w (Suc (tick w)) - startTime a)),
             Session.tabId = tabId a, Session.windowId = windowId a\<rparr>"
  have f: "backend_fault w (tick w) = None"
    using nf by simp
  have g: "getActiveSession w = (Some a, step w)"
    using active by (simp add: getActiveSession_ok [OF f])
  have nfW: "\<forall>n. backend_fault ?W n = None"
    using nf by simp
  have soundW: "sound_for ?W (domain a)"
    using sound by simp
  from fold_ok [OF nfW soundW, of ?s]
  obtain n w4 where raw:
    "TimeTracker_updateDomainData (domain a) ?s ?W = (Inr (), w4) \<and>
     backend_fault w4 = backend_fault ?W \<and> tick ?W \<le> n \<and> n < tick w4 \<and>
     activeSession_p (store w4) = activeSession_p (store ?W) \<and>
     totalTime_of w4 (domain a) = fl ?W (totalTime_of ?W (domain a) + duration ?s) \<and>
     sessions_of w4 (domain a) = sessions_of ?W (domain a) @ [?s] \<and>
     bucket_of w4 (domain a) (toISODate (utc_date ?W (date_now ?W n))) =
       fl ?W (bucket_of ?W (domain a) (toISODate (utc_date ?W (date_now ?W n))) + duration ?s) \<and>
     (\<forall>k. k \<noteq> toISODate (utc_date ?W (date_now ?W n)) \<longrightarrow>
          bucket_of w4 (domain a) k = bucket_of ?W (domain a) k)"
    by blast
  then have fold: "TimeTracker_updateDomainData (domain a) ?s ?W = (Inr (), w4)"
    and env: "backend_fault w4 = backend_fault w"
    and n: "tick w \<le> n" "n < tick w4"
    and tot: "totalTime_of w4 (domain a) = fl w (totalTime_of w (domain a) + duration ?s)"
    and ses: "sessions_of w4 (domain a) = sessions_of w (domain a) @ [?s]"
    and bk: "bucket_of w4 (domain a) (toISODate (utc_date w (date_now w n))) =
               fl w (bucket_of w (domain a) (toISODate (utc_date w (date_now w n))) +
                     duration ?s)"
    and other: "\<forall>k. k \<noteq> toISODate (utc_date w (date_now w n)) \<longrightarrow>
               bucket_of w4 (domain a) k = bucket_of w (domain a) k"
    by simp_all
  have f4: "backend_fault w4 (tick w4) = None"
    using env nf by simp
  let ?w' = "step (w4\<lparr>store := (store w4)\<lparr>activeSession_p := Some None\<rparr>\<rparr>)"
  have stop: "stopSession w = (Inr (Some ?s), ?w')"
    by (simp add: stopSession_def rethrow_def g performance_now_def calculateDuration_def
          Let_def fold setActiveSession_ok [OF f4])
  show ?thesis
    apply (rule exI [where x = n])
    apply (rule exI [where x = ?w'])
    apply (rule exI [where x = ?s])
    using stop n tot ses bk other
    apply simp
    done
qed

text \<open>
  Where it is not: the domain of the active session is an inherited name that the stored
  domains object has no record for. \<open>getDomainData\<close> then answers with the inherited
  member, reading its \<open>dailyStats\<close> throws, and \<open>stopSession\<close> fails after the
  first reading of \<open>Date.now()\<close>, before anything is written.
\<close>

lemma stopSession_inherited_name:
  assumes active: "activeSession_p (store w) = Some (Some a)"
    and reads: "backend_fault w (tick w) = None" "backend_fault w (Suc (Suc (tick w))) = None"
    and stored: "domains_p (store w) = Some ds"
    and absent: "ds (domain a) = None"
    and name: "domain a \<in> set Object_prototype_keys"
  shows "stopSession w =
           (Inl (Error (''Failed to stop session: TypeError: '' @
                  engine_message w (ReadPropertyOfUndefined
                    (toISODate (utc_date w (date_now w (Suc (Suc (Suc (tick w)))))))))),
            step (step (step (step w))))"
proof -
  have g: "getActiveSession w = (Some a, step w)"
    using active by (simp add: getActiveSession_ok [OF reads(1)])
  have f2: "backend_fault (step (step w)) (tick (step (step w))) = None"
    using reads(2) by simp
  have read: "getDomainData (domain a) (step (step w)) = (inherited_member, step (step (step w)))"
    using stored absent name by (simp add: getDomainData_ok [OF f2] property_def)
  show ?thesis
    by (simp add: stopSession_def rethrow_def g performance_now_def calculateDuration_def
          Let_def TimeTracker_updateDomainData_def read Date_now_def inherited_member_def)
qed


text \<open>
  Claim C2: when an active session is stored (paused or not) and the storage does not
  fail, \<open>stopSession\<close> adds the duration of the returned session to the total of
  the session's domain, appends the session to the domain's list and adds the duration to
  the daily bucket of the completion date. The code does not do so for the site
  \<open>http://constructor/\<close>: with a stored domains object that has no record for
  \<open>constructor\<close>, the lookup finds the inherited \<open>Object\<close>, the stop fails with
  a \<open>TypeError\<close>, nothing is recorded for the domain, and the session stays in its
  slot.
\<close>

theorem stopSession_constructor:
  "stopSession world_constructor =
     (Inl (Error ''Failed to stop session: TypeError: Cannot read properties of undefined (reading 2022-01-01)''),
      step (step (step (step world_constructor)))) \<and>
   domain session_constructor = ''constructor'' \<and>
   activeSession_p (store world_constructor) = Some (Some session_constructor) \<and>
   activeSession_p (store (snd (stopSession world_constructor))) = Some (Some session_constructor) \<and>
   stored_domain (snd (stopSession world_constructor)) ''constructor'' = None"
proof -
  have a: "activeSession_p (store world_constructor) = Some (Some session_constructor)"
    and r: "backend_fault world_constructor (tick world_constructor) = None"
      "backend_fault world_constructor (Suc (Suc (tick world_constructor))) = None"
    and s: "domains_p (store world_constructor) = Some [''example.com'' \<mapsto> example_data]"
    by (simp_all add: world_constructor_def world_idle_def no_items_def)
  have n: "[''example.com'' \<mapsto> example_data] (domain session_constructor) = None"
    "domain session_constructor \<in> set Object_prototype_keys"
    "domain session_constructor = ''constructor''"
    by (simp_all add: session_constructor_def Object_prototype_keys_def)
  have m: "engine_message world_constructor (ReadPropertyOfUndefined
             (toISODate (utc_date world_constructor
               (date_now world_constructor (Suc (Suc (Suc (tick world_constructor)))))))) =
           ''Cannot read properties of undefined (reading 2022-01-01)''"
    by code_simp
  from stopSession_inherited_name [OF a r s n(1,2)] m a s n(3)
  show ?thesis by (simp add: stored_domain_def)
qed

end
